theory Spec2Isabelle
  imports Complex_Main "HOL-Library.List_Lexorder" "HOL-Library.Char_ord"
begin

section \<open>Key profiles: the constants, \<open>rotate\<close>, \<open>profile\<close> and \<open>key_ratings\<close>\<close>

text \<open>
  The notebook \<^verbatim>\<open>analysis_probe_tone.ipynb\<close> defines the two Krumhansl-Kessler base
  vectors as Python lists of floats. No arithmetic is done on them by \<^verbatim>\<open>rotate\<close> and
  \<^verbatim>\<open>profile\<close>; the ratings are read as the decimal numbers that are written in the
  source.
\<close>

definition KK_major :: "real list" where
  "KK_major = [6.35, 2.23, 3.48, 2.33, 4.38, 4.09, 2.52, 5.19, 2.39, 3.66, 2.29, 2.88]"

definition KK_minor :: "real list" where
  "KK_minor = [6.33, 2.68, 3.52, 5.38, 2.60, 3.53, 2.54, 4.75, 3.98, 2.69, 3.34, 3.17]"

definition modes :: "string list" where
  "modes = [''major'', ''minor'']"

text \<open>
  A Python slice bound \<open>k\<close> on a list of length \<open>n\<close>: a negative bound counts from the
  end, and the result is clamped to \<open>0 .. n\<close>. A slice never raises.
\<close>

definition slice_bound :: "nat \<Rightarrow> int \<Rightarrow> nat" where
  "slice_bound n k =
     (if k < 0 then (if k + int n < 0 then 0 else nat (k + int n))
      else if int n < k then n else nat k)"

text \<open>
  \<^verbatim>\<open>def rotate(l,k): return l[k:] + l[:k]\<close>
\<close>

definition rotate_py :: "'a list \<Rightarrow> int \<Rightarrow> 'a list" where
  "rotate_py l k = drop (slice_bound (length l) k) l @ take (slice_bound (length l) k) l"

text \<open>
  \<^verbatim>\<open>def profile(pitch_class, mode):\<close> the major base vector for the string
  \<^verbatim>\<open>'major'\<close>, the minor one for every other mode.
\<close>

definition profile :: "int \<Rightarrow> string \<Rightarrow> real list" where
  "profile pitch_class mode =
     (if mode = ''major'' then rotate_py KK_major pitch_class
      else rotate_py KK_minor pitch_class)"

text \<open>
  \<^verbatim>\<open>key_ratings = [profile(i, m) for i in range(12) for m in modes]\<close>
\<close>

definition key_ratings :: "real list list" where
  "key_ratings = concat (map (\<lambda>i. map (\<lambda>m. profile (int i) m) modes) [0..<12])"

text \<open>
  The failures of the specification's taxonomy that concern profiles and correlations.
\<close>

datatype error = InvalidArgument | NumericallyUndefined

text \<open>
  The contract \<open>build_profile\<close> as the specification words it (section 4.1): a tonic outside
  \<open>[0,11]\<close> (or a mode that is neither major nor minor) fails with \<open>InvalidArgument\<close>;
  otherwise the value at index \<open>i\<close> is \<open>base[(i + tonic) mod 12]\<close>. It is compared with
  \<open>profile\<close> below.
\<close>

definition build_profile_spec :: "int \<Rightarrow> string \<Rightarrow> error + real list" where
  "build_profile_spec tonic mode =
     (if tonic < 0 \<or> 11 < tonic \<or> mode \<notin> set modes then Inl InvalidArgument
      else Inr (map (\<lambda>i. (if mode = ''major'' then KK_major else KK_minor) ! ((i + nat tonic) mod 12))
                 [0..<12]))"

section \<open>The correlation matrix: \<open>key_distances\<close>\<close>

text \<open>
  A Python float that is either a number or the IEEE not-a-number.
\<close>

datatype pyfloat = NaN | Fin real

text \<open>
  Modelled from the spec: \<^verbatim>\<open>pearsonr\<close> is imported from \<^verbatim>\<open>scipy.stats\<close> and its code is
  not part of the source. Section 4.2 of the specification gives the coefficient as
  \<open>r = covariance(x,y) / (stddev(x) * stddev(y))\<close> with the population definitions, and says
  that with a zero-variance input the correlation is undefined and a NaN results. The
  arithmetic is that of the real numbers: rounding of floating-point operations is not
  part of this model. Only the first component of the pair that \<^verbatim>\<open>pearsonr\<close> returns, the
  coefficient, is used by the source.
\<close>

definition mean :: "real list \<Rightarrow> real" where
  "mean x = sum_list x / real (length x)"

definition covariance :: "real list \<Rightarrow> real list \<Rightarrow> real" where
  "covariance x y = sum_list (map2 (\<lambda>a b. (a - mean x) * (b - mean y)) x y) / real (length x)"

definition stddev :: "real list \<Rightarrow> real" where
  "stddev x = sqrt (covariance x x)"

definition pearsonr :: "real list \<Rightarrow> real list \<Rightarrow> pyfloat" where
  "pearsonr x y =
     (if stddev x * stddev y = 0 then NaN
      else Fin (covariance x y / (stddev x * stddev y)))"

text \<open>
  \<^verbatim>\<open>key_distances = DataFrame([[pearsonr(key1, key2)[0] for key1 in key_ratings]
                                                       for key2 in key_ratings])\<close>

  The comprehension is written for any list of ratings; the source applies it to
  \<open>key_ratings\<close>. There is no check of the inputs and no handler around \<^verbatim>\<open>pearsonr\<close>.
\<close>

definition key_distances_of :: "real list list \<Rightarrow> pyfloat list list" where
  "key_distances_of ratings = map (\<lambda>key2. map (\<lambda>key1. pearsonr key1 key2) ratings) ratings"

definition key_distances :: "pyfloat list list" where
  "key_distances = key_distances_of key_ratings"

text \<open>
  Two matrix entries agree within the reference tolerance \<open>1e-9\<close>; a NaN agrees with
  nothing.
\<close>

definition within_tolerance :: "pyfloat \<Rightarrow> pyfloat \<Rightarrow> bool" where
  "within_tolerance a b =
     (case a of NaN \<Rightarrow> False
      | Fin u \<Rightarrow> (case b of NaN \<Rightarrow> False | Fin v \<Rightarrow> \<bar>u - v\<bar> \<le> 1 / 10 ^ 9))"

text \<open>
  The guard as the specification words it (sections 4.2 and 7): a zero-variance input
  fails with \<open>NumericallyUndefined\<close> instead of yielding a NaN. It is compared with what the
  source computes below.
\<close>

definition correlation_spec :: "real list \<Rightarrow> real list \<Rightarrow> error + pyfloat" where
  "correlation_spec x y =
     (if covariance x x = 0 \<or> covariance y y = 0 then Inl NumericallyUndefined
      else Inr (pearsonr x y))"

section \<open>The condition manifest: \<open>conditions\<close>\<close>

text \<open>
  The two patterns handed to \<^verbatim>\<open>glob.glob\<close> for one experiment:
  \<^verbatim>\<open>"sounds/" + experiment + "/contexts/" + "*.wav"\<close> and the same with \<^verbatim>\<open>targets\<close>.
\<close>

definition contexts_pattern :: "string \<Rightarrow> string" where
  "contexts_pattern experiment = ''sounds/'' @ experiment @ ''/contexts/'' @ ''*.wav''"

definition targets_pattern :: "string \<Rightarrow> string" where
  "targets_pattern experiment = ''sounds/'' @ experiment @ ''/targets/'' @ ''*.wav''"

text \<open>
  The three nested loops of the source, with the list \<^verbatim>\<open>conditions\<close> as their state;
  each innermost step appends \<^verbatim>\<open>[str(experiment), str(context), str(target)]\<close>. The
  directory listing \<^verbatim>\<open>glob.glob\<close> is a parameter: it maps a pattern to the matching paths
  in whatever order the file system lists them, and to the empty list when the directory
  does not exist or holds no match (it does not raise).
\<close>

fun target_loop :: "string \<Rightarrow> string \<Rightarrow> string list \<Rightarrow> string list list \<Rightarrow> string list list" where
  "target_loop experiment context [] conditions = conditions"
| "target_loop experiment context (target # targets) conditions =
     target_loop experiment context targets (conditions @ [[experiment, context, target]])"

fun context_loop :: "string \<Rightarrow> string list \<Rightarrow> string list \<Rightarrow> string list list \<Rightarrow> string list list" where
  "context_loop experiment [] targets conditions = conditions"
| "context_loop experiment (context # contexts) targets conditions =
     context_loop experiment contexts targets (target_loop experiment context targets conditions)"

fun experiment_loop :: "(string \<Rightarrow> string list) \<Rightarrow> string list \<Rightarrow> string list list \<Rightarrow> string list list" where
  "experiment_loop glob [] conditions = conditions"
| "experiment_loop glob (experiment # experiments) conditions =
     experiment_loop glob experiments
       (context_loop experiment (glob (contexts_pattern experiment))
          (glob (targets_pattern experiment)) conditions)"

text \<open>
  The list \<^verbatim>\<open>conditions\<close> as it stands when the loop ends (line 153); lines 155 and 156
  of the cell, which make a table of it, follow below as \<open>conditions_table\<close>.
\<close>

definition conditions :: "(string \<Rightarrow> string list) \<Rightarrow> string list \<Rightarrow> string list list" where
  "conditions glob experiments = experiment_loop glob experiments []"

text \<open>
  The cross product of one experiment's contexts with its targets, in the order given.
\<close>

definition cross :: "string \<Rightarrow> string list \<Rightarrow> string list \<Rightarrow> string list list" where
  "cross experiment contexts targets =
     concat (map (\<lambda>context. map (\<lambda>target. [experiment, context, target]) targets) contexts)"

text \<open>
  The contract \<open>enumerate_conditions\<close> as the specification words it (section 4.3): the
  listed paths are sorted by path string before they are crossed. It is compared with
  \<open>conditions\<close> below.
\<close>

definition enumerate_conditions_spec :: "(string \<Rightarrow> string list) \<Rightarrow> string list \<Rightarrow> string list list" where
  "enumerate_conditions_spec glob experiment_ids =
     concat (map (\<lambda>e. cross e (sort (glob (contexts_pattern e))) (sort (glob (targets_pattern e))))
               experiment_ids)"

text \<open>
  Two listings of the stimulus tree of the specification's scenario, with contexts
  \<^verbatim>\<open>a.wav\<close>, \<^verbatim>\<open>b.wav\<close> and targets \<^verbatim>\<open>x.wav\<close>, \<^verbatim>\<open>y.wav\<close> for \<^verbatim>\<open>exp1\<close> and nothing for any
  other experiment: one in sorted order, one with the contexts listed as \<^verbatim>\<open>b.wav\<close>,
  \<^verbatim>\<open>a.wav\<close>.
\<close>

definition listing_sorted :: "string \<Rightarrow> string list" where
  "listing_sorted pattern =
     (if pattern = ''sounds/exp1/contexts/*.wav''
      then [''sounds/exp1/contexts/a.wav'', ''sounds/exp1/contexts/b.wav'']
      else if pattern = ''sounds/exp1/targets/*.wav''
      then [''sounds/exp1/targets/x.wav'', ''sounds/exp1/targets/y.wav'']
      else [])"

definition listing_unsorted :: "string \<Rightarrow> string list" where
  "listing_unsorted pattern =
     (if pattern = ''sounds/exp1/contexts/*.wav''
      then [''sounds/exp1/contexts/b.wav'', ''sounds/exp1/contexts/a.wav'']
      else if pattern = ''sounds/exp1/targets/*.wav''
      then [''sounds/exp1/targets/x.wav'', ''sounds/exp1/targets/y.wav'']
      else [])"

text \<open>
  The Python exceptions that the two cells below can raise.
\<close>

datatype py_error = IndexError | ValueError | KeyError | ParserError

text \<open>
  The table that lines 155 and 156 make of the list and bind to the same name:
  \<^verbatim>\<open>conditions = DataFrame(np.array(conditions))\<close> and
  \<^verbatim>\<open>conditions.columns = ['experiment', 'contexts', 'targets']\<close>. Every row that the loop
  appends has three entries, so a non-empty list becomes an array with as many columns as
  its first row has entries; the empty list becomes a one-dimensional empty array, of which
  \<^verbatim>\<open>DataFrame\<close> makes a single column. Assigning column names raises \<^verbatim>\<open>ValueError\<close> unless
  there is one name for each column.
\<close>

record manifest =
  manifest_columns :: "string list"
  manifest_rows :: "string list list"

definition frame_width :: "string list list \<Rightarrow> nat" where
  "frame_width rows = (case rows of [] \<Rightarrow> 1 | first # rest \<Rightarrow> length first)"

definition set_columns :: "string list list \<Rightarrow> string list \<Rightarrow> py_error + manifest" where
  "set_columns rows names =
     (if length names = frame_width rows
      then Inr \<lparr>manifest_columns = names, manifest_rows = rows\<rparr>
      else Inl ValueError)"

definition conditions_table :: "(string \<Rightarrow> string list) \<Rightarrow> string list \<Rightarrow> py_error + manifest" where
  "conditions_table glob experiments =
     set_columns (conditions glob experiments) [''experiment'', ''contexts'', ''targets'']"

section \<open>The response logs: \<open>data\<close>\<close>

text \<open>
  A cell of a table is a value read from the file or the NaN that pandas fills in where a
  row has no value for a column. A row pairs column names with cells. An index label is a
  position in the default index \<open>0, 1, 2, ...\<close> or the cells of the leading fields of a
  data line. A DataFrame has its column names and its rows, each under an index label.
\<close>

datatype cell = NaNCell | Cell string

type_synonym row = "(string \<times> cell) list"

datatype label = Pos nat | Key "cell list"

record dataframe =
  columns :: "string list"
  entries :: "(label \<times> row) list"

definition get :: "row \<Rightarrow> string \<Rightarrow> cell" where
  "get r c = (case map_of r c of None \<Rightarrow> NaNCell | Some v \<Rightarrow> v)"

text \<open>
  \<^verbatim>\<open>pd.read_csv(the_file)\<close> with its default arguments. Splitting the file into the header
  names and the fields of each data line is a parameter. Where the first data line has
  more fields than the header has names, the surplus leading fields of every line become
  the index and the header names the fields after them; otherwise the rows are labelled
  \<open>0, 1, 2, ...\<close>. A line with fewer fields than expected is filled up with NaN; a later
  line with more fields than expected is a parser error.
\<close>

definition leading_cols :: "string list \<Rightarrow> cell list list \<Rightarrow> nat" where
  "leading_cols header body = (case body of [] \<Rightarrow> 0 | first # rest \<Rightarrow> length first - length header)"

definition pad :: "nat \<Rightarrow> cell list \<Rightarrow> cell list" where
  "pad n cells = cells @ replicate (n - length cells) NaNCell"

definition read_csv :: "(string \<Rightarrow> string list \<times> cell list list) \<Rightarrow> string \<Rightarrow> py_error + dataframe" where
  "read_csv parse the_file =
     (let header = fst (parse the_file); body = snd (parse the_file);
          k = leading_cols header body; width = k + length header;
          padded = map (pad width) body
      in if list_ex (\<lambda>cells. width < length cells) body then Inl ParserError
         else Inr \<lparr>columns = header,
                   entries = zip (if k = 0 then map Pos [0..<length body]
                                  else map (\<lambda>cells. Key (take k cells)) padded)
                                 (map (\<lambda>cells. zip header (drop k cells)) padded)\<rparr>)"

text \<open>
  \<^verbatim>\<open>current_file.index[[0,1]]\<close>: the labels at the given positions; a position beyond the
  last row raises \<^verbatim>\<open>IndexError\<close>.
\<close>

definition index_at :: "dataframe \<Rightarrow> nat list \<Rightarrow> py_error + label list" where
  "index_at df positions =
     (if list_all (\<lambda>p. p < length (entries df)) positions
      then Inr (map (\<lambda>p. fst (entries df ! p)) positions)
      else Inl IndexError)"

text \<open>
  \<^verbatim>\<open>current_file.drop(labels)\<close>: removes every row whose label is listed.
\<close>

definition drop_labels :: "dataframe \<Rightarrow> label list \<Rightarrow> dataframe" where
  "drop_labels df labels = df\<lparr>entries := filter (\<lambda>e. fst e \<notin> set labels) (entries df)\<rparr>"

text \<open>
  \<^verbatim>\<open>pd.concat(frames, axis=0)\<close>: the rows of all frames in order, over the union of their
  columns; an empty list of frames raises \<^verbatim>\<open>ValueError\<close>.
\<close>

definition concat_frames :: "dataframe list \<Rightarrow> py_error + dataframe" where
  "concat_frames frames =
     (if frames = [] then Inl ValueError
      else Inr \<lparr>columns = remdups (concat (map columns frames)),
                entries = concat (map entries frames)\<rparr>)"

text \<open>
  \<^verbatim>\<open>data.reset_index(drop=True)\<close>: the rows are relabelled \<open>0, 1, 2, ...\<close>.
\<close>

definition reset_index :: "dataframe \<Rightarrow> dataframe" where
  "reset_index df =
     df\<lparr>entries := zip (map Pos [0..<length (entries df)]) (map snd (entries df))\<rparr>"

text \<open>
  \<^verbatim>\<open>data[[...]]\<close>: every row is cut down to the listed columns; a listed column that the
  frame does not have raises \<^verbatim>\<open>KeyError\<close>.
\<close>

definition project :: "string list \<Rightarrow> row \<Rightarrow> row" where
  "project cols r = map (\<lambda>c. (c, get r c)) cols"

definition select_columns :: "dataframe \<Rightarrow> string list \<Rightarrow> py_error + dataframe" where
  "select_columns df cols =
     (if list_all (\<lambda>c. c \<in> set (columns df)) cols
      then Inr \<lparr>columns = cols, entries = map (\<lambda>e. (fst e, project cols (snd e))) (entries df)\<rparr>
      else Inl KeyError)"

definition relevant_cols :: "string list" where
  "relevant_cols = [''exp_no'', ''context'', ''probe'', ''sld_rating.response'', ''sld_rating.rt'',
                    ''participant'', ''date'']"

text \<open>
  The loop over \<^verbatim>\<open>data_files\<close>, with the list \<^verbatim>\<open>frames\<close> as its state, and the three
  statements after it.
\<close>

fun file_loop :: "(string \<Rightarrow> string list \<times> cell list list) \<Rightarrow> string list \<Rightarrow> dataframe list
                  \<Rightarrow> py_error + dataframe list" where
  "file_loop parse [] frames = Inr frames"
| "file_loop parse (the_file # files) frames =
     (case read_csv parse the_file of
        Inl e \<Rightarrow> Inl e
      | Inr current_file \<Rightarrow>
          (case index_at current_file [0, 1] of
             Inl e \<Rightarrow> Inl e
           | Inr labels \<Rightarrow> file_loop parse files (frames @ [drop_labels current_file labels])))"

definition data :: "(string \<Rightarrow> string list \<times> cell list list) \<Rightarrow> string list \<Rightarrow> py_error + dataframe" where
  "data parse data_files =
     (case file_loop parse data_files [] of
        Inl e \<Rightarrow> Inl e
      | Inr frames \<Rightarrow>
          (case concat_frames frames of
             Inl e \<Rightarrow> Inl e
           | Inr d \<Rightarrow> select_columns (reset_index d) relevant_cols))"

text \<open>
  What one file contributes when its first two rows are dropped by position: its data
  rows after the first two, each under the header's names and cut down to the seven
  columns. The frame of those rows before the columns are cut, under the labels
  \<open>2, 3, ...\<close>.
\<close>

definition trial_rows :: "(string \<Rightarrow> string list \<times> cell list list) \<Rightarrow> string \<Rightarrow> row list" where
  "trial_rows parse the_file =
     map (\<lambda>cells. project relevant_cols
                     (zip (fst (parse the_file)) (pad (length (fst (parse the_file))) cells)))
       (drop 2 (snd (parse the_file)))"

definition trial_frame :: "(string \<Rightarrow> string list \<times> cell list list) \<Rightarrow> string \<Rightarrow> dataframe" where
  "trial_frame parse the_file =
     \<lparr>columns = fst (parse the_file),
      entries = zip (map Pos [2..<length (snd (parse the_file))])
                  (map (\<lambda>cells. zip (fst (parse the_file))
                                    (pad (length (fst (parse the_file))) cells))
                     (drop 2 (snd (parse the_file))))\<rparr>"

text \<open>
  Two response logs for the scenario of the specification: the first with the rows
  practice1, practice2, trial1, trial2, trial3, the second with practice1, practice2,
  trial4; both have one column more than the seven that are kept. A third log has the
  five rows of the first, each data line ending in a delimiter, so that it has one field
  more than the header.
\<close>

definition log_header :: "string list" where
  "log_header = [''exp_no'', ''context'', ''probe'', ''sld_rating.response'', ''sld_rating.rt'',
                 ''key_resp.keys'', ''participant'', ''date'']"

definition log_row :: "string \<Rightarrow> string \<Rightarrow> cell list" where
  "log_row participant name =
     [Cell ''1a'', Cell ''asc_maj'', Cell name, Cell ''4'', Cell ''1.25'', Cell ''space'',
      Cell participant, Cell ''2015_Jun_01'']"

definition example_logs :: "string \<Rightarrow> string list \<times> cell list list" where
  "example_logs the_file =
     (if the_file = ''data/p01.csv''
      then (log_header,
            map (log_row ''p01'') [''practice1'', ''practice2'', ''trial1'', ''trial2'', ''trial3''])
      else (log_header, map (log_row ''p02'') [''practice1'', ''practice2'', ''trial4'']))"

definition trailing_logs :: "string \<Rightarrow> string list \<times> cell list list" where
  "trailing_logs the_file =
     (log_header,
      map (\<lambda>name. log_row ''p01'' name @ [NaNCell])
        [''practice1'', ''practice2'', ''trial1'', ''trial2'', ''trial3''])"

definition kept_row :: "string \<Rightarrow> string \<Rightarrow> row" where
  "kept_row participant name =
     [(''exp_no'', Cell ''1a''), (''context'', Cell ''asc_maj''), (''probe'', Cell name),
      (''sld_rating.response'', Cell ''4''), (''sld_rating.rt'', Cell ''1.25''),
      (''participant'', Cell participant), (''date'', Cell ''2015_Jun_01'')]"

section \<open>Rotation\<close>

lemma length_KK [simp]: "length KK_major = 12" "length KK_minor = 12"
  by (simp_all add: KK_major_def KK_minor_def)

lemma length_rotate_py [simp]: "length (rotate_py l k) = length l"
  by (simp add: rotate_py_def slice_bound_def)

lemma length_profile [simp]: "length (profile t m) = 12"
  by (simp add: profile_def)

lemma slice_bound_in_range: "0 \<le> k \<Longrightarrow> k \<le> int n \<Longrightarrow> slice_bound n k = nat k"
  by (simp add: slice_bound_def)

lemma slice_bound_beyond: "int n \<le> k \<Longrightarrow> slice_bound n k = n"
  by (auto simp add: slice_bound_def)

lemma drop_take_nth:
  assumes "k \<le> length l" and "i < length l"
  shows "(drop k l @ take k l) ! i = l ! ((i + k) mod length l)"
proof (cases "i < length l - k")
  case True
  then have "(i + k) mod length l = k + i" by simp
  with True show ?thesis by (simp add: nth_append add.commute)
next
  case False
  from False assms have small: "i - (length l - k) < k" by arith
  from False assms have "i + k = (i - (length l - k)) + length l" by arith
  then have "(i + k) mod length l = (i - (length l - k)) mod length l"
    by (metis mod_add_self2)
  also have "\<dots> = i - (length l - k)"
    using small assms(1) by simp
  finally have eq: "(i + k) mod length l = i - (length l - k)" .
  from False small eq show ?thesis by (simp add: nth_append)
qed

lemma rotate_py_nth:
  assumes "0 \<le> k" and "k \<le> int (length l)" and "i < length l"
  shows "rotate_py l k ! i = l ! ((i + nat k) mod length l)"
proof -
  have "slice_bound (length l) k = nat k"
    using assms(1,2) by (rule slice_bound_in_range)
  moreover have "nat k \<le> length l" using assms(2) by simp
  ultimately show ?thesis
    using assms(3) by (simp add: rotate_py_def drop_take_nth)
qed

lemma rotate_py_beyond: "int (length l) \<le> k \<Longrightarrow> rotate_py l k = l"
  by (simp add: rotate_py_def slice_bound_beyond)

lemma rotate_py_zero: "rotate_py l 0 = l"
  by (simp add: rotate_py_def slice_bound_def)

text \<open>
  Claim C1. For every tonic in \<open>[0,11]\<close> and mode major or minor, \<open>profile tonic mode\<close> is
  the left rotation of the base vector selected by the mode: its value at index \<open>i\<close> is
  \<open>base[(i + tonic) mod 12]\<close> for every \<open>i\<close> in \<open>[0,11]\<close>. In particular
  \<open>profile 0 major\<close> is \<open>KK_major\<close> unchanged, and \<open>profile 1 major\<close> is \<open>KK_major\<close>
  rotated left by one.
\<close>

theorem profile_is_rotation:
  "(\<forall>tonic mode i. 0 \<le> tonic \<and> tonic \<le> 11 \<and> mode \<in> {''major'', ''minor''} \<and> i < 12 \<longrightarrow>
      length (profile tonic mode) = 12 \<and>
      profile tonic mode ! i =
        (if mode = ''major'' then KK_major else KK_minor) ! ((i + nat tonic) mod 12))
   \<and> profile 0 ''major'' = KK_major
   \<and> profile 1 ''major'' =
       [2.23, 3.48, 2.33, 4.38, 4.09, 2.52, 5.19, 2.39, 3.66, 2.29, 2.88, 6.35]"
proof (intro conjI allI impI)
  fix tonic :: int and mode :: string and i :: nat
  assume h: "0 \<le> tonic \<and> tonic \<le> 11 \<and> mode \<in> {''major'', ''minor''} \<and> i < 12"
  show "length (profile tonic mode) = 12" by simp
  show "profile tonic mode ! i =
        (if mode = ''major'' then KK_major else KK_minor) ! ((i + nat tonic) mod 12)"
    using h rotate_py_nth [of tonic KK_major i] rotate_py_nth [of tonic KK_minor i]
    by (simp add: profile_def)
next
  show "profile 0 ''major'' = KK_major"
    by (simp add: profile_def rotate_py_zero)
next
  show "profile 1 ''major'' =
       [2.23, 3.48, 2.33, 4.38, 4.09, 2.52, 5.19, 2.39, 3.66, 2.29, 2.88, 6.35]"
    by (simp add: profile_def rotate_py_def slice_bound_def KK_major_def)
qed

theorem profile_is_rotation_witness:
  "(0::int) \<le> 3 \<and> (3::int) \<le> 11 \<and> ''minor'' \<in> {''major'', ''minor''} \<and> (10::nat) < 12 \<and>
   profile 3 ''minor'' ! 10 = KK_minor ! 1 \<and> profile 3 ''minor'' ! 10 = 2.68"
proof -
  have "profile 3 ''minor'' ! 10 = KK_minor ! ((10 + nat 3) mod 12)"
    using profile_is_rotation by simp
  then show ?thesis by (simp add: KK_minor_def)
qed

section \<open>The enumeration of the 24 profiles\<close>

lemma concat_map_nth:
  assumes "\<forall>x\<in>set xs. length (f x) = n" and "t < length xs" and "m < n"
  shows "concat (map f xs) ! (n * t + m) = f (xs ! t) ! m"
  using assms
proof (induction xs arbitrary: t)
  case Nil
  then show ?case by simp
next
  case (Cons x xs)
  show ?case
  proof (cases t)
    case 0
    with Cons.prems show ?thesis by (simp add: nth_append)
  next
    case (Suc t')
    with Cons.prems have len: "length (f x) = n" and t': "t' < length xs"
      and all: "\<forall>x\<in>set xs. length (f x) = n" by simp_all
    have "n * t + m = length (f x) + (n * t' + m)"
      using Suc len by simp
    then have "concat (map f (x # xs)) ! (n * t + m) = concat (map f xs) ! (n * t' + m)"
      by (simp add: nth_append)
    also have "\<dots> = f (xs ! t') ! m"
      using all t' Cons.prems(3) by (rule Cons.IH)
    finally show ?thesis using Suc by simp
  qed
qed

lemma length_key_ratings: "length key_ratings = 24"
  by (simp add: key_ratings_def modes_def length_concat comp_def sum_list_triv)

lemma key_ratings_nth:
  assumes "t < 12" and "m < 2"
  shows "key_ratings ! (2 * t + m) = profile (int t) (modes ! m)"
proof -
  let ?f = "\<lambda>i. map (\<lambda>m. profile (int i) m) modes"
  have "concat (map ?f [0..<12]) ! (2 * t + m) = ?f ([0..<12] ! t) ! m"
    using assms by (intro concat_map_nth) (simp_all add: modes_def)
  also have "\<dots> = profile (int t) (modes ! m)"
    using assms by (simp add: modes_def nth_Cons')
  finally show ?thesis by (simp add: key_ratings_def)
qed

text \<open>
  Claim C2. The enumeration of all profiles has exactly 24 entries, 12 tonics times 2
  modes, in the order tonic 0 major, tonic 0 minor, tonic 1 major, ..., tonic 11 minor:
  the entry at list index \<open>2 * t + m\<close>, with \<open>m = 0\<close> for major and \<open>m = 1\<close> for minor, is
  \<open>profile t\<close> of that mode, for every \<open>t\<close> in \<open>[0,11]\<close>.
\<close>

theorem key_ratings_enumeration:
  "length key_ratings = 24 \<and>
   (\<forall>t. t < 12 \<longrightarrow>
      key_ratings ! (2 * t) = profile (int t) ''major'' \<and>
      key_ratings ! (2 * t + 1) = profile (int t) ''minor'')"
proof (intro conjI allI impI)
  show "length key_ratings = 24" by (rule length_key_ratings)
next
  fix t :: nat
  assume "t < 12"
  then show "key_ratings ! (2 * t) = profile (int t) ''major''"
    using key_ratings_nth [of t 0] by (simp add: modes_def)
next
  fix t :: nat
  assume "t < 12"
  then show "key_ratings ! (2 * t + 1) = profile (int t) ''minor''"
    using key_ratings_nth [of t 1] by (simp add: modes_def)
qed

theorem key_ratings_enumeration_witness:
  "(11::nat) < 12 \<and> key_ratings ! 23 = profile 11 ''minor'' \<and>
   key_ratings ! 23 = [3.17, 6.33, 2.68, 3.52, 5.38, 2.60, 3.53, 2.54, 4.75, 3.98, 2.69, 3.34]"
proof -
  have "\<forall>t. t < 12 \<longrightarrow>
      key_ratings ! (2 * t) = profile (int t) ''major'' \<and>
      key_ratings ! (2 * t + 1) = profile (int t) ''minor''"
    using key_ratings_enumeration by (rule conjunct2)
  then have "(11::nat) < 12 \<longrightarrow>
      key_ratings ! (2 * 11) = profile (int 11) ''major'' \<and>
      key_ratings ! (2 * 11 + 1) = profile (int 11) ''minor''"
    by (rule spec)
  then have "key_ratings ! 23 = profile 11 ''minor''"
    by simp
  then show ?thesis
    by (simp add: profile_def rotate_py_def slice_bound_def KK_minor_def)
qed

section \<open>Tonics outside \<open>[0,11]\<close>\<close>

text \<open>
  Claim C10. For every integer tonic \<open>\<ge> 12\<close> and either mode, \<open>profile\<close> raises no error and
  returns the base vector unrotated, equal to \<open>profile 0\<close> of that mode: in \<open>l[k:] + l[:k]\<close>
  the first slice is empty and the second is the whole list.
\<close>

theorem profile_large_tonic_unrotated:
  "12 \<le> tonic \<Longrightarrow>
     profile tonic mode = profile 0 mode \<and>
     profile tonic mode = (if mode = ''major'' then KK_major else KK_minor) \<and>
     drop (slice_bound 12 tonic) (profile 0 mode) = [] \<and>
     take (slice_bound 12 tonic) (profile 0 mode) = profile 0 mode"
  by (simp add: profile_def rotate_py_beyond rotate_py_zero slice_bound_beyond)

theorem profile_large_tonic_unrotated_witness:
  "(12::int) \<le> 13 \<and> profile 13 ''minor'' = profile 0 ''minor'' \<and> profile 13 ''minor'' = KK_minor"
proof -
  have h: "(12::int) \<le> 13" by simp
  have a: "profile 13 ''minor'' = profile 0 ''minor''"
    using profile_large_tonic_unrotated [OF h, of "''minor''"] by (rule conjunct1)
  have b: "profile 0 ''minor'' = KK_minor"
    by (simp add: profile_def rotate_py_zero)
  from h a b show ?thesis by simp
qed

lemma rotate_py_alias:
  "rotate_py l k = rotate_py l (int (slice_bound (length l) k mod length l))"
proof (cases "slice_bound (length l) k < length l")
  case True
  then have "slice_bound (length l) (int (slice_bound (length l) k mod length l))
             = slice_bound (length l) k"
    by (simp add: slice_bound_def)
  then show ?thesis by (simp add: rotate_py_def)
next
  case False
  moreover have "slice_bound (length l) k \<le> length l"
    by (auto simp add: slice_bound_def)
  ultimately have "slice_bound (length l) k = length l" by simp
  then show ?thesis by (simp add: rotate_py_def slice_bound_def)
qed

text \<open>
  Claim C6, as the specification states it, is that a tonic outside \<open>[0,11]\<close> fails with
  \<open>InvalidArgument\<close>. The source has no such check: at tonic 12 the contract asks for the
  failure while \<open>profile\<close> returns the unrotated major vector.
\<close>

theorem profile_tonic_12_returns_value:
  "build_profile_spec 12 ''major'' = Inl InvalidArgument \<and>
   profile 12 ''major'' = KK_major \<and>
   Inr (profile 12 ''major'') \<noteq> build_profile_spec 12 ''major''"
  by (simp add: build_profile_spec_def profile_def rotate_py_beyond)

text \<open>
  Claim C6, amended. For a tonic in \<open>[0,11]\<close> and mode major or minor no error occurs and
  \<open>profile\<close> returns what the contract describes. For any other integer tonic \<open>profile\<close>
  does not fail either: it returns a vector of 12 values, the profile of some tonic in
  \<open>[0,11]\<close>.
\<close>

theorem profile_never_fails:
  "length (profile tonic mode) = 12 \<and>
   (\<exists>k. k < 12 \<and> profile tonic mode = profile (int k) mode) \<and>
   (0 \<le> tonic \<and> tonic \<le> 11 \<and> mode \<in> {''major'', ''minor''} \<longrightarrow>
      build_profile_spec tonic mode = Inr (profile tonic mode))"
proof (intro conjI impI)
  show "length (profile tonic mode) = 12" by simp
next
  have "slice_bound 12 tonic mod 12 < 12" by simp
  moreover have "profile tonic mode = profile (int (slice_bound 12 tonic mod 12)) mode"
    using rotate_py_alias [of KK_major tonic] rotate_py_alias [of KK_minor tonic]
    by (simp add: profile_def)
  ultimately show "\<exists>k. k < 12 \<and> profile tonic mode = profile (int k) mode" by blast
next
  assume h: "0 \<le> tonic \<and> tonic \<le> 11 \<and> mode \<in> {''major'', ''minor''}"
  have "profile tonic mode = map (\<lambda>i. profile tonic mode ! i) [0..<12]"
    using map_nth [of "profile tonic mode"] by simp
  also have "\<dots> = map (\<lambda>i. (if mode = ''major'' then KK_major else KK_minor) ! ((i + nat tonic) mod 12))
                     [0..<12]"
    using h rotate_py_nth [of tonic KK_major] rotate_py_nth [of tonic KK_minor]
    by (auto simp add: profile_def)
  finally show "build_profile_spec tonic mode = Inr (profile tonic mode)"
    using h by (auto simp add: build_profile_spec_def modes_def)
qed

theorem profile_never_fails_witness:
  "(0::int) \<le> 1 \<and> (1::int) \<le> 11 \<and> ''major'' \<in> {''major'', ''minor''} \<and>
   build_profile_spec 1 ''major'' = Inr (profile 1 ''major'') \<and>
   length (profile (-5) ''minor'') = 12"
  using profile_never_fails [of 1 "''major''"] profile_never_fails [of "-5" "''minor''"]
  by simp

section \<open>Properties of the correlation matrix\<close>

lemma sum_list_map_rotate_py:
  fixes f :: "'a \<Rightarrow> real"
  shows "sum_list (map f (rotate_py l k)) = sum_list (map f l)"
proof -
  let ?n = "slice_bound (length l) k"
  have "sum_list (map f l) = sum_list (map f (take ?n l @ drop ?n l))"
    by (simp only: append_take_drop_id)
  also have "\<dots> = sum_list (map f (take ?n l)) + sum_list (map f (drop ?n l))"
    by (simp only: map_append sum_list_append)
  finally show ?thesis by (simp add: rotate_py_def)
qed

lemma mean_rotate_py: "mean (rotate_py l k) = mean l"
  using sum_list_map_rotate_py [of "\<lambda>a. a" l k] by (simp add: mean_def)

lemma covariance_self:
  "covariance x x = sum_list (map (\<lambda>a. (a - mean x) * (a - mean x)) x) / real (length x)"
  by (simp add: covariance_def zip_same_conv_map comp_def)

lemma covariance_self_rotate_py: "covariance (rotate_py l k) (rotate_py l k) = covariance l l"
  by (simp add: covariance_self mean_rotate_py sum_list_map_rotate_py)

lemma covariance_self_nonneg: "0 \<le> covariance x x"
  unfolding covariance_self
  by (intro divide_nonneg_nonneg sum_list_nonneg) auto

lemma covariance_commute:
  assumes "length x = length y"
  shows "covariance x y = covariance y x"
proof -
  have "map2 (\<lambda>a b. (a - mean x) * (b - mean y)) x y
        = map2 (\<lambda>b a. (b - mean y) * (a - mean x)) y x"
    by (subst zip_commute) (simp add: mult.commute case_prod_unfold)
  then show ?thesis using assms by (simp add: covariance_def)
qed

lemma pearsonr_commute:
  "length x = length y \<Longrightarrow> pearsonr x y = pearsonr y x"
  by (simp add: pearsonr_def covariance_commute mult.commute)

lemma pearsonr_self:
  assumes "covariance x x \<noteq> 0"
  shows "pearsonr x x = Fin 1"
proof -
  have "stddev x * stddev x = covariance x x"
    using covariance_self_nonneg [of x] by (simp add: stddev_def)
  with assms show ?thesis by (simp add: pearsonr_def)
qed

lemma covariance_KK_major: "covariance KK_major KK_major > 0"
  by (simp add: covariance_self mean_def KK_major_def)

lemma covariance_KK_minor: "covariance KK_minor KK_minor > 0"
  by (simp add: covariance_self mean_def KK_minor_def)

lemma covariance_profile: "covariance (profile t m) (profile t m) > 0"
  by (simp add: profile_def covariance_self_rotate_py covariance_KK_major covariance_KK_minor)

lemma key_ratings_profile:
  assumes "i < 24"
  shows "\<exists>t m. key_ratings ! i = profile t m"
proof -
  have "key_ratings ! i \<in> set key_ratings"
    using assms by (simp add: length_key_ratings)
  then show ?thesis by (auto simp add: key_ratings_def)
qed

lemma key_distances_nth:
  assumes "i < 24" and "j < 24"
  shows "key_distances ! i ! j = pearsonr (key_ratings ! j) (key_ratings ! i)"
  using assms by (simp add: key_distances_def key_distances_of_def length_key_ratings)


lemma pearsonr_finite:
  assumes "covariance x x > 0" and "covariance y y > 0"
  shows "\<exists>v. pearsonr x y = Fin v"
  using assms by (simp add: pearsonr_def stddev_def)

lemma within_tolerance_refl: "within_tolerance (Fin v) (Fin v)"
  by (simp add: within_tolerance_def)

lemma length_key_distances: "length key_distances = 24"
  by (simp add: key_distances_def key_distances_of_def length_key_ratings)

lemma length_key_distances_row: "i < 24 \<Longrightarrow> length (key_distances ! i) = 24"
  by (simp add: key_distances_def key_distances_of_def length_key_ratings)

lemma mean_constant:
  assumes "\<forall>a\<in>set x. a = c" and "x \<noteq> []"
  shows "mean x = c"
proof -
  have "replicate (length x) c = x"
    using assms(1) by (simp add: replicate_length_same)
  then have "sum_list x = real (length x) * c"
    by (metis sum_list_replicate)
  with assms(2) show ?thesis by (simp add: mean_def)
qed

lemma covariance_constant:
  assumes "\<forall>a\<in>set x. a = c"
  shows "covariance x x = 0"
proof (cases "x = []")
  case True
  then show ?thesis by (simp add: covariance_def)
next
  case False
  with assms have m: "mean x = c" by (rule mean_constant)
  have "map (\<lambda>a. (a - mean x) * (a - mean x)) x = map (\<lambda>a. 0) x"
    using assms m by (intro map_cong) simp_all
  then have "sum_list (map (\<lambda>a. (a - mean x) * (a - mean x)) x) = 0"
    by (simp only: sum_list_0)
  then show ?thesis by (simp only: covariance_self div_0)
qed

lemma pearsonr_constant:
  assumes "(\<forall>a\<in>set x. a = c) \<or> (\<forall>a\<in>set y. a = c)"
  shows "pearsonr x y = NaN"
  using assms covariance_constant [of x c] covariance_constant [of y c]
  by (auto simp add: pearsonr_def stddev_def)

text \<open>
  Claim C3. The 24 by 24 correlation matrix of the 24 profiles is symmetric: for all
  indices \<open>i\<close>, \<open>j\<close> in \<open>[0,23]\<close> the entries \<open>M[i][j]\<close> and \<open>M[j][i]\<close> are numbers that
  agree within \<open>1e-9\<close>.
\<close>

theorem key_distances_symmetric:
  "length key_distances = 24 \<and>
   (\<forall>i j. i < 24 \<and> j < 24 \<longrightarrow>
      length (key_distances ! i) = 24 \<and>
      within_tolerance (key_distances ! i ! j) (key_distances ! j ! i))"
proof (intro conjI allI impI)
  show "length key_distances = 24" by (rule length_key_distances)
next
  fix i j :: nat
  assume h: "i < 24 \<and> j < 24"
  then show "length (key_distances ! i) = 24" by (simp add: length_key_distances_row)
  from h obtain t m where a: "key_ratings ! i = profile t m"
    using key_ratings_profile by blast
  from h obtain t' m' where b: "key_ratings ! j = profile t' m'"
    using key_ratings_profile by blast
  have "pearsonr (profile t' m') (profile t m) = pearsonr (profile t m) (profile t' m')"
    by (rule pearsonr_commute) simp
  with h a b have eq: "key_distances ! i ! j = key_distances ! j ! i"
    by (simp add: key_distances_nth)
  obtain v where "pearsonr (profile t m) (profile t' m') = Fin v"
    using pearsonr_finite [OF covariance_profile covariance_profile] by blast
  with h a b have "key_distances ! j ! i = Fin v"
    by (simp add: key_distances_nth)
  with eq show "within_tolerance (key_distances ! i ! j) (key_distances ! j ! i)"
    by (simp add: within_tolerance_refl)
qed

theorem key_distances_symmetric_witness:
  "(0::nat) < 24 \<and> (1::nat) < 24 \<and>
   within_tolerance (key_distances ! 0 ! 1) (key_distances ! 1 ! 0)"
proof -
  have "\<forall>i j. i < 24 \<and> j < 24 \<longrightarrow>
      length (key_distances ! i) = 24 \<and>
      within_tolerance (key_distances ! i ! j) (key_distances ! j ! i)"
    using key_distances_symmetric by (rule conjunct2)
  then have "(0::nat) < 24 \<and> (1::nat) < 24 \<longrightarrow>
      length (key_distances ! 0) = 24 \<and>
      within_tolerance (key_distances ! 0 ! 1) (key_distances ! 1 ! 0)"
    by blast
  then show ?thesis by simp
qed

text \<open>
  Claim C4. Every diagonal entry of the correlation matrix of the 24 profiles equals 1
  within \<open>1e-9\<close>: no profile has zero variance, so its correlation with itself is 1.
\<close>

theorem key_distances_diagonal:
  "\<forall>i. i < 24 \<longrightarrow> within_tolerance (key_distances ! i ! i) (Fin 1)"
proof (intro allI impI)
  fix i :: nat
  assume h: "i < 24"
  then obtain t m where a: "key_ratings ! i = profile t m"
    using key_ratings_profile by blast
  have "covariance (profile t m) (profile t m) \<noteq> 0"
    using covariance_profile [of t m] by simp
  then have "pearsonr (profile t m) (profile t m) = Fin 1"
    by (rule pearsonr_self)
  with h a have "key_distances ! i ! i = Fin 1"
    by (simp add: key_distances_nth)
  then show "within_tolerance (key_distances ! i ! i) (Fin 1)"
    by (simp add: within_tolerance_refl)
qed

theorem key_distances_diagonal_witness:
  "(5::nat) < 24 \<and> within_tolerance (key_distances ! 5 ! 5) (Fin 1) \<and>
   key_ratings ! 5 = profile 2 ''minor''"
proof -
  have "(5::nat) < 24 \<longrightarrow> within_tolerance (key_distances ! 5 ! 5) (Fin 1)"
    using key_distances_diagonal by (rule spec)
  moreover have "key_ratings ! (2 * 2 + 1) = profile (int 2) (modes ! 1)"
    by (rule key_ratings_nth) simp_all
  ultimately show ?thesis by (simp add: modes_def)
qed

text \<open>
  Claim C5, as the specification states it, is that a zero-variance input makes the
  correlation fail with \<open>NumericallyUndefined\<close>. The source has no guard: for the constant
  vector of twelve ones against \<open>KK_major\<close> the guard of the specification fails, while
  the entry that the source computes is a NaN.
\<close>

theorem constant_vector_gives_nan:
  "pearsonr (replicate 12 1) KK_major = NaN \<and>
   correlation_spec (replicate 12 1) KK_major = Inl NumericallyUndefined \<and>
   Inr (pearsonr (replicate 12 1) KK_major) \<noteq> correlation_spec (replicate 12 1) KK_major"
proof -
  have "covariance (replicate 12 1) (replicate 12 1) = 0"
    by (rule covariance_constant [of _ 1]) simp
  then show ?thesis
    by (simp add: pearsonr_def stddev_def correlation_spec_def)
qed

text \<open>
  Claim C5, amended. If at least one of the two input vectors is constant, no failure is
  raised: the correlation is NaN. In the matrix of any list of ratings, a constant vector
  at position \<open>k\<close> makes every entry of row \<open>k\<close> and of column \<open>k\<close> a NaN.
\<close>

theorem zero_variance_propagates_nan:
  "((\<forall>a\<in>set x. a = c) \<or> (\<forall>a\<in>set y. a = c) \<longrightarrow> pearsonr x y = NaN) \<and>
   (k < length ratings \<and> i < length ratings \<and> (\<forall>a\<in>set (ratings ! k). a = c) \<longrightarrow>
      key_distances_of ratings ! k ! i = NaN \<and> key_distances_of ratings ! i ! k = NaN)"
  using pearsonr_constant [of x c y] pearsonr_constant [of "ratings ! i" c "ratings ! k"]
    pearsonr_constant [of "ratings ! k" c "ratings ! i"]
  by (simp add: key_distances_of_def)

theorem zero_variance_propagates_nan_witness:
  "set (replicate 12 (1::real)) = {1} \<and> pearsonr (replicate 12 1) KK_major = NaN \<and>
   key_distances_of [KK_major, replicate 12 1] ! 1 ! 0 = NaN \<and>
   key_distances_of [KK_major, replicate 12 1] ! 0 ! 1 = NaN \<and>
   key_distances_of [KK_major, replicate 12 1] ! 0 ! 0 = Fin 1"
proof -
  have c: "\<forall>a\<in>set (replicate 12 (1::real)). a = 1" by simp
  have "pearsonr (replicate 12 1) KK_major = NaN"
    using zero_variance_propagates_nan [of "replicate 12 1" 1 KK_major] c by blast
  moreover have "key_distances_of [KK_major, replicate 12 1] ! 1 ! 0 = NaN \<and>
      key_distances_of [KK_major, replicate 12 1] ! 0 ! 1 = NaN"
    using zero_variance_propagates_nan [of _ 1 _ 1 "[KK_major, replicate 12 1]" 0] by simp
  moreover have "key_distances_of [KK_major, replicate 12 1] ! 0 ! 0 = Fin 1"
    using pearsonr_self [of KK_major] covariance_KK_major
    by (simp add: key_distances_of_def)
  moreover have "set (replicate 12 (1::real)) = {1}" by simp
  ultimately show ?thesis by blast
qed

section \<open>Properties of the condition manifest\<close>

lemma target_loop_append:
  "target_loop e c ts acc = acc @ map (\<lambda>t. [e, c, t]) ts"
  by (induction ts arbitrary: acc) simp_all

lemma context_loop_append:
  "context_loop e cs ts acc = acc @ cross e cs ts"
  by (induction cs arbitrary: acc) (simp_all add: cross_def target_loop_append)

lemma experiment_loop_append:
  "experiment_loop glob es acc =
     acc @ concat (map (\<lambda>e. cross e (glob (contexts_pattern e)) (glob (targets_pattern e))) es)"
  by (induction es arbitrary: acc) (simp_all add: context_loop_append)

lemma conditions_cross:
  "conditions glob es =
     concat (map (\<lambda>e. cross e (glob (contexts_pattern e)) (glob (targets_pattern e))) es)"
  by (simp add: conditions_def experiment_loop_append)

lemma cross_empty: "cs = [] \<or> ts = [] \<Longrightarrow> cross e cs ts = []"
  by (auto simp add: cross_def)

lemma set_cross: "set (cross e cs ts) = (\<lambda>(c, t). [e, c, t]) ` (set cs \<times> set ts)"
  by (auto simp add: cross_def)

lemma length_cross: "length (cross e cs ts) = length cs * length ts"
  by (induction cs) (simp_all add: cross_def)

text \<open>
  Claim C7, as the specification states it, is that the listed paths are sorted before
  they are crossed. The source does not sort: when \<^verbatim>\<open>glob\<close> lists the contexts as
  \<^verbatim>\<open>b.wav\<close>, \<^verbatim>\<open>a.wav\<close>, the conditions come out in that order, not in the sorted order of
  the contract.
\<close>

theorem conditions_not_sorted:
  "conditions listing_unsorted [''exp1''] =
     [[''exp1'', ''sounds/exp1/contexts/b.wav'', ''sounds/exp1/targets/x.wav''],
      [''exp1'', ''sounds/exp1/contexts/b.wav'', ''sounds/exp1/targets/y.wav''],
      [''exp1'', ''sounds/exp1/contexts/a.wav'', ''sounds/exp1/targets/x.wav''],
      [''exp1'', ''sounds/exp1/contexts/a.wav'', ''sounds/exp1/targets/y.wav'']] \<and>
   enumerate_conditions_spec listing_unsorted [''exp1''] =
     [[''exp1'', ''sounds/exp1/contexts/a.wav'', ''sounds/exp1/targets/x.wav''],
      [''exp1'', ''sounds/exp1/contexts/a.wav'', ''sounds/exp1/targets/y.wav''],
      [''exp1'', ''sounds/exp1/contexts/b.wav'', ''sounds/exp1/targets/x.wav''],
      [''exp1'', ''sounds/exp1/contexts/b.wav'', ''sounds/exp1/targets/y.wav'']] \<and>
   conditions listing_unsorted [''exp1''] \<noteq> enumerate_conditions_spec listing_unsorted [''exp1'']"
proof -
  have a: "conditions listing_unsorted [''exp1''] =
     [[''exp1'', ''sounds/exp1/contexts/b.wav'', ''sounds/exp1/targets/x.wav''],
      [''exp1'', ''sounds/exp1/contexts/b.wav'', ''sounds/exp1/targets/y.wav''],
      [''exp1'', ''sounds/exp1/contexts/a.wav'', ''sounds/exp1/targets/x.wav''],
      [''exp1'', ''sounds/exp1/contexts/a.wav'', ''sounds/exp1/targets/y.wav'']]"
    by (simp add: conditions_def listing_unsorted_def contexts_pattern_def targets_pattern_def)
  have b: "enumerate_conditions_spec listing_unsorted [''exp1''] =
     [[''exp1'', ''sounds/exp1/contexts/a.wav'', ''sounds/exp1/targets/x.wav''],
      [''exp1'', ''sounds/exp1/contexts/a.wav'', ''sounds/exp1/targets/y.wav''],
      [''exp1'', ''sounds/exp1/contexts/b.wav'', ''sounds/exp1/targets/x.wav''],
      [''exp1'', ''sounds/exp1/contexts/b.wav'', ''sounds/exp1/targets/y.wav'']]"
    by code_simp
  show ?thesis unfolding a b by simp
qed

text \<open>
  Claim C7, amended. The conditions are, experiment by experiment, exactly the full cross
  product of the experiment's context files with its target files, each triple tagged
  with the experiment id, in the order in which \<^verbatim>\<open>glob\<close> lists the paths. Where every
  listing is in sorted order this is the sorted-then-crossed sequence of the contract.
\<close>

theorem conditions_cross_product:
  "conditions glob experiments =
     concat (map (\<lambda>e. cross e (glob (contexts_pattern e)) (glob (targets_pattern e))) experiments) \<and>
   set (conditions glob [e]) =
     (\<lambda>(c, t). [e, c, t]) ` (set (glob (contexts_pattern e)) \<times> set (glob (targets_pattern e))) \<and>
   length (conditions glob [e]) =
     length (glob (contexts_pattern e)) * length (glob (targets_pattern e)) \<and>
   ((\<forall>x\<in>set experiments. sorted (glob (contexts_pattern x)) \<and> sorted (glob (targets_pattern x))) \<longrightarrow>
      conditions glob experiments = enumerate_conditions_spec glob experiments)"
proof (intro conjI impI)
  show "conditions glob experiments =
     concat (map (\<lambda>e. cross e (glob (contexts_pattern e)) (glob (targets_pattern e))) experiments)"
    by (rule conditions_cross)
next
  show "set (conditions glob [e]) =
     (\<lambda>(c, t). [e, c, t]) ` (set (glob (contexts_pattern e)) \<times> set (glob (targets_pattern e)))"
    by (simp add: conditions_cross set_cross)
next
  show "length (conditions glob [e]) =
     length (glob (contexts_pattern e)) * length (glob (targets_pattern e))"
    by (simp add: conditions_cross length_cross)
next
  assume s: "\<forall>x\<in>set experiments. sorted (glob (contexts_pattern x)) \<and> sorted (glob (targets_pattern x))"
  have "map (\<lambda>e. cross e (glob (contexts_pattern e)) (glob (targets_pattern e))) experiments
        = map (\<lambda>e. cross e (sort (glob (contexts_pattern e))) (sort (glob (targets_pattern e))))
            experiments"
    using s by (intro map_cong refl) (simp add: sort_key_id_if_sorted)
  then show "conditions glob experiments = enumerate_conditions_spec glob experiments"
    by (simp only: conditions_cross enumerate_conditions_spec_def)
qed

theorem conditions_cross_product_witness:
  "sorted (listing_sorted (contexts_pattern ''exp1'')) \<and>
   sorted (listing_sorted (targets_pattern ''exp1'')) \<and>
   conditions listing_sorted [''exp1''] = enumerate_conditions_spec listing_sorted [''exp1''] \<and>
   conditions listing_sorted [''exp1''] =
     [[''exp1'', ''sounds/exp1/contexts/a.wav'', ''sounds/exp1/targets/x.wav''],
      [''exp1'', ''sounds/exp1/contexts/a.wav'', ''sounds/exp1/targets/y.wav''],
      [''exp1'', ''sounds/exp1/contexts/b.wav'', ''sounds/exp1/targets/x.wav''],
      [''exp1'', ''sounds/exp1/contexts/b.wav'', ''sounds/exp1/targets/y.wav'']]"
proof -
  have h: "\<forall>x\<in>set [''exp1'']. sorted (listing_sorted (contexts_pattern x)) \<and>
       sorted (listing_sorted (targets_pattern x))"
    by code_simp
  have v: "conditions listing_sorted [''exp1''] =
     [[''exp1'', ''sounds/exp1/contexts/a.wav'', ''sounds/exp1/targets/x.wav''],
      [''exp1'', ''sounds/exp1/contexts/a.wav'', ''sounds/exp1/targets/y.wav''],
      [''exp1'', ''sounds/exp1/contexts/b.wav'', ''sounds/exp1/targets/x.wav''],
      [''exp1'', ''sounds/exp1/contexts/b.wav'', ''sounds/exp1/targets/y.wav'']]"
    by (simp add: conditions_def listing_sorted_def contexts_pattern_def targets_pattern_def)
  from conditions_cross_product [of listing_sorted "[''exp1'']" "''exp1''"] h
  have e: "conditions listing_sorted [''exp1''] = enumerate_conditions_spec listing_sorted [''exp1'']"
    by blast
  from h have "sorted (listing_sorted (contexts_pattern ''exp1'')) \<and>
               sorted (listing_sorted (targets_pattern ''exp1''))"
    by simp
  with e v show ?thesis by blast
qed

lemma cross_rows_three: "r \<in> set (cross e cs ts) \<Longrightarrow> length r = 3"
  by (auto simp add: cross_def)

lemma conditions_rows_three: "r \<in> set (conditions glob es) \<Longrightarrow> length r = 3"
  by (auto simp add: conditions_cross cross_rows_three)

lemma frame_width_conditions:
  assumes "conditions glob es \<noteq> []"
  shows "frame_width (conditions glob es) = 3"
proof (cases "conditions glob es")
  case Nil
  with assms show ?thesis by simp
next
  case (Cons first rest)
  then have "first \<in> set (conditions glob es)" by simp
  then have "length first = 3" by (rule conditions_rows_three)
  with Cons show ?thesis by (simp add: frame_width_def)
qed

text \<open>
  Claim C8, as the specification states it, is that a missing directory gives an empty
  condition list and no failure. In the scenario of the specification, with the one
  experiment \<^verbatim>\<open>expMissing\<close> that has no files, the loop leaves the list empty and the
  assignment of the three column names at line 156 raises \<^verbatim>\<open>ValueError\<close>.
\<close>

theorem only_missing_directory_raises:
  "listing_sorted (contexts_pattern ''expMissing'') = [] \<and>
   conditions listing_sorted [''expMissing''] = [] \<and>
   conditions_table listing_sorted [''expMissing''] = Inl ValueError"
  by (simp add: conditions_table_def set_columns_def frame_width_def conditions_def
      listing_sorted_def contexts_pattern_def targets_pattern_def)

text \<open>
  Claim C8, amended. An experiment whose contexts or targets listing is empty (the
  directory is missing or empty) contributes no condition: its turn of the loop leaves the
  list as it was, and the conditions and the table of a list of experiments are what they
  are without that experiment. No failure is raised when at least one experiment of the
  list yields a condition: the table then holds the conditions of the experiments before
  and after it under the three column names.
\<close>

theorem missing_directory_contributes_nothing:
  assumes "glob (contexts_pattern e) = [] \<or> glob (targets_pattern e) = []"
  shows "context_loop e (glob (contexts_pattern e)) (glob (targets_pattern e)) acc = acc \<and>
         conditions glob (before @ e # after) = conditions glob before @ conditions glob after \<and>
         conditions_table glob (before @ e # after) = conditions_table glob (before @ after) \<and>
         (conditions glob (before @ after) \<noteq> [] \<longrightarrow>
            conditions_table glob (before @ e # after) =
              Inr \<lparr>manifest_columns = [''experiment'', ''contexts'', ''targets''],
                   manifest_rows = conditions glob before @ conditions glob after\<rparr>)"
proof -
  have none: "cross e (glob (contexts_pattern e)) (glob (targets_pattern e)) = []"
    using assms by (rule cross_empty)
  have same: "conditions glob (before @ e # after) = conditions glob (before @ after)"
    using none by (simp add: conditions_cross)
  have split: "conditions glob (before @ after) = conditions glob before @ conditions glob after"
    by (simp add: conditions_cross)
  have a: "context_loop e (glob (contexts_pattern e)) (glob (targets_pattern e)) acc = acc"
    using none by (simp add: context_loop_append)
  have b: "conditions glob (before @ e # after) = conditions glob before @ conditions glob after"
    using same split by simp
  have c: "conditions_table glob (before @ e # after) = conditions_table glob (before @ after)"
    using same by (simp add: conditions_table_def)
  have d: "conditions glob (before @ after) \<noteq> [] \<longrightarrow>
            conditions_table glob (before @ e # after) =
              Inr \<lparr>manifest_columns = [''experiment'', ''contexts'', ''targets''],
                   manifest_rows = conditions glob before @ conditions glob after\<rparr>"
  proof
    assume ne: "conditions glob (before @ after) \<noteq> []"
    then have "frame_width (conditions glob (before @ after)) = 3"
      by (rule frame_width_conditions)
    then have "conditions_table glob (before @ after) =
        Inr \<lparr>manifest_columns = [''experiment'', ''contexts'', ''targets''],
             manifest_rows = conditions glob (before @ after)\<rparr>"
      by (simp add: conditions_table_def set_columns_def)
    then show "conditions_table glob (before @ e # after) =
              Inr \<lparr>manifest_columns = [''experiment'', ''contexts'', ''targets''],
                   manifest_rows = conditions glob before @ conditions glob after\<rparr>"
      using c split by simp
  qed
  show ?thesis by (intro conjI a b c d)
qed

theorem missing_directory_contributes_nothing_witness:
  "(listing_sorted (contexts_pattern ''expMissing'') = [] \<or>
    listing_sorted (targets_pattern ''expMissing'') = []) \<and>
   conditions listing_sorted [''exp1''] \<noteq> [] \<and>
   conditions listing_sorted [''expMissing'', ''exp1''] = conditions listing_sorted [''exp1''] \<and>
   conditions_table listing_sorted [''expMissing'', ''exp1''] =
     Inr \<lparr>manifest_columns = [''experiment'', ''contexts'', ''targets''],
          manifest_rows =
            [[''exp1'', ''sounds/exp1/contexts/a.wav'', ''sounds/exp1/targets/x.wav''],
             [''exp1'', ''sounds/exp1/contexts/a.wav'', ''sounds/exp1/targets/y.wav''],
             [''exp1'', ''sounds/exp1/contexts/b.wav'', ''sounds/exp1/targets/x.wav''],
             [''exp1'', ''sounds/exp1/contexts/b.wav'', ''sounds/exp1/targets/y.wav'']]\<rparr>"
proof -
  have h: "listing_sorted (contexts_pattern ''expMissing'') = [] \<or>
    listing_sorted (targets_pattern ''expMissing'') = []"
    by (simp add: listing_sorted_def contexts_pattern_def)
  have v: "conditions listing_sorted [''exp1''] =
            [[''exp1'', ''sounds/exp1/contexts/a.wav'', ''sounds/exp1/targets/x.wav''],
             [''exp1'', ''sounds/exp1/contexts/a.wav'', ''sounds/exp1/targets/y.wav''],
             [''exp1'', ''sounds/exp1/contexts/b.wav'', ''sounds/exp1/targets/x.wav''],
             [''exp1'', ''sounds/exp1/contexts/b.wav'', ''sounds/exp1/targets/y.wav'']]"
    by (simp add: conditions_def listing_sorted_def contexts_pattern_def targets_pattern_def)
  have e: "conditions listing_sorted [] = []"
    by (simp add: conditions_def)
  have ne: "conditions listing_sorted ([] @ [''exp1'']) \<noteq> []"
    using v by simp
  note r = missing_directory_contributes_nothing [OF h, of "[]" "[]" "[''exp1'']"]
  from r have r2: "conditions listing_sorted ([] @ ''expMissing'' # [''exp1''])
      = conditions listing_sorted [] @ conditions listing_sorted [''exp1'']"
    by blast
  from r ne have r4: "conditions_table listing_sorted ([] @ ''expMissing'' # [''exp1'']) =
      Inr \<lparr>manifest_columns = [''experiment'', ''contexts'', ''targets''],
           manifest_rows = conditions listing_sorted [] @ conditions listing_sorted [''exp1'']\<rparr>"
    by blast
  have c1: "conditions listing_sorted [''exp1''] \<noteq> []" using v by simp
  have c2: "conditions listing_sorted [''expMissing'', ''exp1''] = conditions listing_sorted [''exp1'']"
    using r2 e by simp
  have c3: "conditions_table listing_sorted [''expMissing'', ''exp1''] =
     Inr \<lparr>manifest_columns = [''experiment'', ''contexts'', ''targets''],
          manifest_rows =
            [[''exp1'', ''sounds/exp1/contexts/a.wav'', ''sounds/exp1/targets/x.wav''],
             [''exp1'', ''sounds/exp1/contexts/a.wav'', ''sounds/exp1/targets/y.wav''],
             [''exp1'', ''sounds/exp1/contexts/b.wav'', ''sounds/exp1/targets/x.wav''],
             [''exp1'', ''sounds/exp1/contexts/b.wav'', ''sounds/exp1/targets/y.wav'']]\<rparr>"
    using r4 e v by simp
  show ?thesis by (intro conjI h c1 c2 c3)
qed

section \<open>Properties of the response loader\<close>

lemma upt_two: "2 \<le> n \<Longrightarrow> [0..<n] = 0 # 1 # [2..<n]"
proof -
  assume "2 \<le> n"
  then have "[0..<n] = 0 # [Suc 0..<n]" and "[Suc 0..<n] = Suc 0 # [Suc (Suc 0)..<n]"
    by (simp_all add: upt_conv_Cons)
  then show ?thesis by (simp add: numeral_2_eq_2)
qed

lemma labelled_first_two:
  assumes "2 \<le> length rows"
  shows "\<exists>a b rest. rows = a # b # rest \<and>
           zip (map Pos [0..<length rows]) rows
             = (Pos 0, a) # (Pos 1, b) # zip (map Pos [2..<length rows]) rest"
proof -
  from assms obtain a b rest where r: "rows = a # b # rest"
    by (cases rows; cases "tl rows") auto
  have "zip (map Pos [0..<length rows]) rows
          = zip (map Pos (0 # 1 # [2..<length rows])) (a # b # rest)"
    using assms r upt_two [of "length rows"] by simp
  then have "zip (map Pos [0..<length rows]) rows
          = (Pos 0, a) # (Pos 1, b) # zip (map Pos [2..<length rows]) rest"
    by simp
  with r show ?thesis by blast
qed

lemma drop_first_two:
  assumes "2 \<le> length rows"
  shows "filter (\<lambda>e. fst e \<notin> set [Pos 0, Pos 1]) (zip (map Pos [0..<length rows]) rows)
         = zip (map Pos [2..<length rows]) (drop 2 rows)"
proof -
  from labelled_first_two [OF assms] obtain a b rest where r: "rows = a # b # rest"
    and z: "zip (map Pos [0..<length rows]) rows
             = (Pos 0, a) # (Pos 1, b) # zip (map Pos [2..<length rows]) rest"
    by blast
  have later: "fst e \<notin> set [Pos 0, Pos 1]"
    if "e \<in> set (zip (map Pos [2..<length rows]) rest)" for e
  proof -
    from that have "(fst e, snd e) \<in> set (zip (map Pos [2..<length rows]) rest)"
      by simp
    then have "fst e \<in> set (map Pos [2..<length rows])"
      by (rule set_zip_leftD)
    then obtain i where "fst e = Pos i" and "2 \<le> i" by auto
    then show ?thesis by simp
  qed
  have keep: "filter (\<lambda>e. fst e \<notin> set [Pos 0, Pos 1]) (zip (map Pos [2..<length rows]) rest)
              = zip (map Pos [2..<length rows]) rest"
    by (rule filter_True) (use later in blast)
  show ?thesis unfolding z using keep r by simp
qed

lemma read_csv_default_index:
  assumes "\<forall>cells\<in>set (snd (parse the_file)). length cells \<le> length (fst (parse the_file))"
  shows "read_csv parse the_file =
           Inr \<lparr>columns = fst (parse the_file),
                entries = zip (map Pos [0..<length (snd (parse the_file))])
                            (map (\<lambda>cells. zip (fst (parse the_file))
                                              (pad (length (fst (parse the_file))) cells))
                               (snd (parse the_file)))\<rparr>"
proof -
  let ?header = "fst (parse the_file)" and ?body = "snd (parse the_file)"
  have k: "leading_cols ?header ?body = 0"
    using assms by (cases ?body) (simp_all add: leading_cols_def)
  have ok: "\<not> list_ex (\<lambda>cells. length ?header < length cells) ?body"
    using assms by (auto simp add: list_ex_iff)
  show ?thesis
    using ok by (simp add: read_csv_def Let_def k comp_def)
qed

lemma file_frame:
  assumes "2 \<le> length (snd (parse the_file))"
    and "\<forall>cells\<in>set (snd (parse the_file)). length cells \<le> length (fst (parse the_file))"
  shows "\<exists>current_file. read_csv parse the_file = Inr current_file \<and>
           index_at current_file [0, 1] = Inr [Pos 0, Pos 1] \<and>
           drop_labels current_file [Pos 0, Pos 1] = trial_frame parse the_file"
proof -
  let ?header = "fst (parse the_file)" and ?body = "snd (parse the_file)"
  let ?rows = "map (\<lambda>cells. zip ?header (pad (length ?header) cells)) ?body"
  define current_file where
    "current_file = \<lparr>columns = ?header, entries = zip (map Pos [0..<length ?rows]) ?rows\<rparr>"
  have r: "read_csv parse the_file = Inr current_file"
    using read_csv_default_index [of parse the_file] assms(2) by (simp add: current_file_def)
  have len: "2 \<le> length ?rows" using assms(1) by simp
  from labelled_first_two [OF len] obtain a b rest where
    z: "zip (map Pos [0..<length ?rows]) ?rows
          = (Pos 0, a) # (Pos 1, b) # zip (map Pos [2..<length ?rows]) rest"
    by blast
  have i: "index_at current_file [0, 1] = Inr [Pos 0, Pos 1]"
    unfolding index_at_def current_file_def using z by simp
  have "filter (\<lambda>e. fst e \<notin> set [Pos 0, Pos 1]) (zip (map Pos [0..<length ?rows]) ?rows)
         = zip (map Pos [2..<length ?rows]) (drop 2 ?rows)"
    using len by (rule drop_first_two)
  then have d: "drop_labels current_file [Pos 0, Pos 1] = trial_frame parse the_file"
    by (simp add: drop_labels_def current_file_def trial_frame_def drop_map)
  from r i d show ?thesis by blast
qed

lemma trial_frame_rows:
  "columns (trial_frame parse the_file) = fst (parse the_file)"
  "map snd (entries (trial_frame parse the_file))
     = map (\<lambda>cells. zip (fst (parse the_file)) (pad (length (fst (parse the_file))) cells))
         (drop 2 (snd (parse the_file)))"
  by (simp_all add: trial_frame_def)

lemma file_loop_frames:
  assumes "\<forall>f\<in>set files. 2 \<le> length (snd (parse f)) \<and>
             (\<forall>cells\<in>set (snd (parse f)). length cells \<le> length (fst (parse f)))"
  shows "file_loop parse files frames = Inr (frames @ map (trial_frame parse) files)"
  using assms
proof (induction files arbitrary: frames)
  case Nil
  then show ?case by simp
next
  case (Cons f files)
  from Cons.prems have two: "2 \<le> length (snd (parse f))"
    and fit: "\<forall>cells\<in>set (snd (parse f)). length cells \<le> length (fst (parse f))"
    by simp_all
  from file_frame [of parse f] two fit obtain current_file where
    r: "read_csv parse f = Inr current_file"
    and i: "index_at current_file [0, 1] = Inr [Pos 0, Pos 1]"
    and d: "drop_labels current_file [Pos 0, Pos 1] = trial_frame parse f"
    by blast
  have "file_loop parse files (frames @ [trial_frame parse f])
          = Inr ((frames @ [trial_frame parse f]) @ map (trial_frame parse) files)"
    using Cons.prems by (intro Cons.IH) simp
  then show ?case using r i d by simp
qed

text \<open>
  Claim C9, as the specification states it, is that the first two rows of each file are
  dropped by position and the rows of all files are concatenated. The source drops by
  label: \<^verbatim>\<open>index[[0,1]]\<close> reads the labels of the first two rows and \<^verbatim>\<open>drop\<close> removes every
  row under one of them. In a log whose data lines have one field more than the header,
  \<^verbatim>\<open>read_csv\<close> takes the first field as the index: all five rows then carry the label
  \<^verbatim>\<open>1a\<close> and none is kept, where the claim keeps three. With no file at all,
  \<^verbatim>\<open>pd.concat\<close> raises \<^verbatim>\<open>ValueError\<close>, where the claim has an empty result.
\<close>

theorem data_drops_by_label:
  "length (snd (trailing_logs ''data/p01.csv'')) = 5 \<and>
   data trailing_logs [''data/p01.csv''] = Inr \<lparr>columns = relevant_cols, entries = []\<rparr> \<and>
   data example_logs [] = Inl ValueError"
proof -
  have a: "length (snd (trailing_logs ''data/p01.csv'')) = 5"
    by (simp add: trailing_logs_def)
  have r: "read_csv trailing_logs ''data/p01.csv'' =
      Inr \<lparr>columns = log_header,
           entries = map (\<lambda>name. (Key [Cell ''1a''], zip log_header (tl (log_row ''p01'' name @ [NaNCell]))))
             [''practice1'', ''practice2'', ''trial1'', ''trial2'', ''trial3'']\<rparr>"
    by (simp add: read_csv_def trailing_logs_def leading_cols_def pad_def log_header_def
        log_row_def Let_def)
  have l: "file_loop trailing_logs [''data/p01.csv''] [] = Inr [\<lparr>columns = log_header, entries = []\<rparr>]"
    by (simp add: r index_at_def drop_labels_def)
  have b: "data trailing_logs [''data/p01.csv''] = Inr \<lparr>columns = relevant_cols, entries = []\<rparr>"
    by (simp add: data_def l concat_frames_def reset_index_def select_columns_def
        log_header_def relevant_cols_def del: file_loop.simps)
  have c: "data example_logs [] = Inl ValueError"
    by (simp add: data_def concat_frames_def)
  show ?thesis by (intro conjI a b c)
qed

text \<open>
  Claim C9, amended. For a non-empty list of files, each with at least two data rows, no
  data row with more fields than the header has names, and the seven columns in its
  header, loading drops exactly the first two rows of each file by position, cuts every
  remaining row down to the seven columns \<open>exp_no\<close>, \<open>context\<close>, \<open>probe\<close>,
  \<open>sld_rating.response\<close>, \<open>sld_rating.rt\<close>, \<open>participant\<close>, \<open>date\<close>, and concatenates the
  files' rows in the order of the files, each file's rows in their own order.
\<close>

theorem data_drops_two_and_projects:
  assumes "data_files \<noteq> []"
    and "\<forall>f\<in>set data_files.
           2 \<le> length (snd (parse f)) \<and>
           (\<forall>cells\<in>set (snd (parse f)). length cells \<le> length (fst (parse f))) \<and>
           set relevant_cols \<subseteq> set (fst (parse f))"
  shows "\<exists>d. data parse data_files = Inr d \<and>
           columns d = relevant_cols \<and> length relevant_cols = 7 \<and>
           map snd (entries d) = concat (map (trial_rows parse) data_files) \<and>
           map fst (entries d) = map Pos [0..<length (entries d)]"
proof -
  let ?frames = "map (trial_frame parse) data_files"
  let ?all = "concat (map entries ?frames)"
  have two: "\<forall>f\<in>set data_files. 2 \<le> length (snd (parse f)) \<and>
             (\<forall>cells\<in>set (snd (parse f)). length cells \<le> length (fst (parse f)))"
    using assms(2) by simp
  have loop: "file_loop parse data_files [] = Inr ?frames"
    using file_loop_frames [OF two, of "[]"] by simp
  have cat: "concat_frames ?frames
             = Inr \<lparr>columns = remdups (concat (map columns ?frames)), entries = ?all\<rparr>"
    using assms(1) by (simp add: concat_frames_def)
  obtain f0 where f0: "f0 \<in> set data_files"
    using assms(1) by (cases data_files) auto
  have "set relevant_cols \<subseteq> set (columns (trial_frame parse f0))"
    using assms(2) f0 by (simp add: trial_frame_rows(1))
  then have cols: "list_all (\<lambda>c. c \<in> set (remdups (concat (map columns ?frames)))) relevant_cols"
    using f0 by (auto simp add: list_all_iff)
  define zs where "zs = zip (map Pos [0..<length ?all]) (map snd ?all)"
  have z1: "map snd zs = map snd ?all" and z2: "map fst zs = map Pos [0..<length ?all]"
    and z3: "length zs = length ?all"
    by (simp_all add: zs_def)
  define d where "d = \<lparr>columns = relevant_cols,
      entries = map (\<lambda>e. (fst e, project relevant_cols (snd e))) zs\<rparr>"
  have res: "data parse data_files = Inr d"
    using cols by (simp add: data_def loop cat reset_index_def select_columns_def d_def zs_def)
  have flat: "map snd ?all
      = concat (map (\<lambda>f. map snd (entries (trial_frame parse f))) data_files)"
    by (simp add: map_concat comp_def)
  have rows: "map snd ?all
      = concat (map (\<lambda>f. map (\<lambda>cells. zip (fst (parse f)) (pad (length (fst (parse f))) cells))
                            (drop 2 (snd (parse f)))) data_files)"
    by (simp only: flat trial_frame_rows(2))
  have "map snd (entries d) = map (project relevant_cols) (map snd zs)"
    by (simp add: d_def comp_def)
  also have "\<dots> = concat (map (trial_rows parse) data_files)"
    unfolding z1 rows by (simp add: map_concat comp_def trial_rows_def [abs_def])
  finally have r1: "map snd (entries d) = concat (map (trial_rows parse) data_files)" .
  have "map fst (entries d) = map fst zs"
    by (simp add: d_def comp_def)
  then have r2: "map fst (entries d) = map Pos [0..<length (entries d)]"
    by (simp add: z2 z3 d_def)
  have "columns d = relevant_cols" by (simp add: d_def)
  moreover have "length relevant_cols = 7" by (simp add: relevant_cols_def)
  ultimately show ?thesis using res r1 r2 by blast
qed

lemma trial_rows_example:
  "trial_rows example_logs ''data/p01.csv''
     = [kept_row ''p01'' ''trial1'', kept_row ''p01'' ''trial2'', kept_row ''p01'' ''trial3'']"
  "trial_rows example_logs ''data/p02.csv'' = [kept_row ''p02'' ''trial4'']"
  by (simp_all add: trial_rows_def example_logs_def log_header_def log_row_def kept_row_def
      project_def get_def relevant_cols_def pad_def)

theorem data_drops_two_and_projects_witness:
  "length (snd (example_logs ''data/p01.csv'')) = 5 \<and>
   length (snd (example_logs ''data/p02.csv'')) = 3 \<and>
   (\<exists>d. data example_logs [''data/p01.csv'', ''data/p02.csv''] = Inr d \<and>
        columns d = relevant_cols \<and>
        map snd (entries d) =
          [kept_row ''p01'' ''trial1'', kept_row ''p01'' ''trial2'', kept_row ''p01'' ''trial3'',
           kept_row ''p02'' ''trial4''] \<and>
        map fst (entries d) = [Pos 0, Pos 1, Pos 2, Pos 3])"
proof -
  let ?files = "[''data/p01.csv'', ''data/p02.csv'']"
  have h1: "?files \<noteq> []" by simp
  have h2: "\<forall>f\<in>set ?files.
      2 \<le> length (snd (example_logs f)) \<and>
      (\<forall>cells\<in>set (snd (example_logs f)). length cells \<le> length (fst (example_logs f))) \<and>
      set relevant_cols \<subseteq> set (fst (example_logs f))"
    by (simp add: example_logs_def log_header_def log_row_def relevant_cols_def)
  from data_drops_two_and_projects [OF h1 h2]
  obtain d where d: "data example_logs ?files = Inr d" "columns d = relevant_cols"
      "map snd (entries d) = concat (map (trial_rows example_logs) ?files)"
      "map fst (entries d) = map Pos [0..<length (entries d)]"
    by blast
  from d(3) have rows: "map snd (entries d) =
          [kept_row ''p01'' ''trial1'', kept_row ''p01'' ''trial2'', kept_row ''p01'' ''trial3'',
           kept_row ''p02'' ''trial4'']"
    by (simp add: trial_rows_example)
  then have "length (map snd (entries d)) = 4" by simp
  then have "length (entries d) = 4" by simp
  with d(4) have idx: "map fst (entries d) = [Pos 0, Pos 1, Pos 2, Pos 3]"
    by (simp add: upt_conv_Cons)
  have ex: "\<exists>d. data example_logs ?files = Inr d \<and>
        columns d = relevant_cols \<and>
        map snd (entries d) =
          [kept_row ''p01'' ''trial1'', kept_row ''p01'' ''trial2'', kept_row ''p01'' ''trial3'',
           kept_row ''p02'' ''trial4''] \<and>
        map fst (entries d) = [Pos 0, Pos 1, Pos 2, Pos 3]"
    by (rule exI [of _ d]) (intro conjI d(1) d(2) rows idx)
  have n1: "length (snd (example_logs ''data/p01.csv'')) = 5"
    and n2: "length (snd (example_logs ''data/p02.csv'')) = 3"
    by (simp_all add: example_logs_def)
  show ?thesis by (intro conjI n1 n2 ex)
qed

end
